theory Spec2Isabelle
  imports Complex_Main
begin

section \<open>Numbers\<close>

text \<open>
  A JavaScript \<^verbatim>\<open>number\<close> is NaN, one of the two infinities, or a finite value. A finite
  value is a mathematical real here and the operations on finite values are exact:
  rounding and overflow of double precision are outside the model, and the two zeros are
  one. The special values follow the language: they arise in the source without any
  rounding (\<^verbatim>\<open>Math.max()\<close> of no arguments is -Infinity) and the evaluator computes
  with them.
  The general theorems below state what rounding does not change: the order of the
  operations, the comparisons, bounds that include their end points, and the special
  values. Exact finite results are stated only at the concrete inputs of the scenarios.
\<close>

datatype number = NaN | NegInfinity | Fin real | PosInfinity

fun num_neg :: "number \<Rightarrow> number" where
  "num_neg NaN = NaN"
| "num_neg NegInfinity = PosInfinity"
| "num_neg (Fin a) = Fin (- a)"
| "num_neg PosInfinity = NegInfinity"

fun num_add :: "number \<Rightarrow> number \<Rightarrow> number" where
  "num_add (Fin a) (Fin b) = Fin (a + b)"
| "num_add NaN y = NaN"
| "num_add x NaN = NaN"
| "num_add PosInfinity NegInfinity = NaN"
| "num_add NegInfinity PosInfinity = NaN"
| "num_add PosInfinity y = PosInfinity"
| "num_add x PosInfinity = PosInfinity"
| "num_add NegInfinity y = NegInfinity"
| "num_add x NegInfinity = NegInfinity"

definition num_sub :: "number \<Rightarrow> number \<Rightarrow> number" where
  "num_sub x y = num_add x (num_neg y)"

text \<open>The product of an infinity and a finite value: NaN at 0, else by the signs.\<close>

fun num_mul :: "number \<Rightarrow> number \<Rightarrow> number" where
  "num_mul (Fin a) (Fin b) = Fin (a * b)"
| "num_mul NaN y = NaN"
| "num_mul x NaN = NaN"
| "num_mul (Fin a) PosInfinity = (if a = 0 then NaN else if a > 0 then PosInfinity else NegInfinity)"
| "num_mul (Fin a) NegInfinity = (if a = 0 then NaN else if a > 0 then NegInfinity else PosInfinity)"
| "num_mul PosInfinity (Fin b) = (if b = 0 then NaN else if b > 0 then PosInfinity else NegInfinity)"
| "num_mul NegInfinity (Fin b) = (if b = 0 then NaN else if b > 0 then NegInfinity else PosInfinity)"
| "num_mul PosInfinity PosInfinity = PosInfinity"
| "num_mul PosInfinity NegInfinity = NegInfinity"
| "num_mul NegInfinity PosInfinity = NegInfinity"
| "num_mul NegInfinity NegInfinity = PosInfinity"

text \<open>
  Division. The source divides by \<^verbatim>\<open>1 + Math.exp(...)\<close>, which is never 0, and by a
  slope that it has compared with 0 before; the equations for a finite divisor 0 read it
  as the positive zero.
\<close>

fun num_div :: "number \<Rightarrow> number \<Rightarrow> number" where
  "num_div (Fin a) (Fin b) =
     (if b \<noteq> 0 then Fin (a / b)
      else if a = 0 then NaN else if a > 0 then PosInfinity else NegInfinity)"
| "num_div NaN y = NaN"
| "num_div x NaN = NaN"
| "num_div (Fin a) PosInfinity = Fin 0"
| "num_div (Fin a) NegInfinity = Fin 0"
| "num_div PosInfinity (Fin b) = (if b \<ge> 0 then PosInfinity else NegInfinity)"
| "num_div NegInfinity (Fin b) = (if b \<ge> 0 then NegInfinity else PosInfinity)"
| "num_div PosInfinity PosInfinity = NaN"
| "num_div PosInfinity NegInfinity = NaN"
| "num_div NegInfinity PosInfinity = NaN"
| "num_div NegInfinity NegInfinity = NaN"

text \<open>The comparisons \<^verbatim>\<open><\<close> and \<^verbatim>\<open><=\<close>: false when an operand is NaN.\<close>

fun num_lt :: "number \<Rightarrow> number \<Rightarrow> bool" where
  "num_lt (Fin a) (Fin b) = (a < b)"
| "num_lt NaN y = False"
| "num_lt x NaN = False"
| "num_lt x NegInfinity = False"
| "num_lt PosInfinity y = False"
| "num_lt NegInfinity y = True"
| "num_lt x PosInfinity = True"

fun num_le :: "number \<Rightarrow> number \<Rightarrow> bool" where
  "num_le (Fin a) (Fin b) = (a \<le> b)"
| "num_le NaN y = False"
| "num_le x NaN = False"
| "num_le NegInfinity y = True"
| "num_le x PosInfinity = True"
| "num_le x NegInfinity = False"
| "num_le PosInfinity y = False"

definition num_gt :: "number \<Rightarrow> number \<Rightarrow> bool" where
  "num_gt x y = num_lt y x"

definition num_ge :: "number \<Rightarrow> number \<Rightarrow> bool" where
  "num_ge x y = num_le y x"

text \<open>\<^verbatim>\<open>x !== y\<close> on numbers: NaN differs from every number, itself included.\<close>

definition num_neq :: "number \<Rightarrow> number \<Rightarrow> bool" where
  "num_neq x y = (if x = NaN \<or> y = NaN then True else x \<noteq> y)"

definition isNaN :: "number \<Rightarrow> bool" where
  "isNaN x = (x = NaN)"

text \<open>\<^verbatim>\<open>x || y\<close> on numbers: \<^verbatim>\<open>y\<close> when \<^verbatim>\<open>x\<close> is NaN or 0, else \<^verbatim>\<open>x\<close>.\<close>

definition num_or :: "number \<Rightarrow> number \<Rightarrow> number" where
  "num_or x y = (if x = NaN \<or> x = Fin 0 then y else x)"

fun Math_exp :: "number \<Rightarrow> number" where
  "Math_exp NaN = NaN"
| "Math_exp NegInfinity = Fin 0"
| "Math_exp (Fin a) = Fin (exp a)"
| "Math_exp PosInfinity = PosInfinity"

fun Math_tanh :: "number \<Rightarrow> number" where
  "Math_tanh NaN = NaN"
| "Math_tanh NegInfinity = Fin (- 1)"
| "Math_tanh (Fin a) = Fin (tanh a)"
| "Math_tanh PosInfinity = Fin 1"

text \<open>
  \<^verbatim>\<open>Math.max\<close> and \<^verbatim>\<open>Math.min\<close>: NaN when an argument is NaN, else the greatest and the
  least argument; of no arguments -Infinity and +Infinity.
\<close>

definition Math_max2 :: "number \<Rightarrow> number \<Rightarrow> number" where
  "Math_max2 x y = (if x = NaN \<or> y = NaN then NaN else if num_lt x y then y else x)"

definition Math_min2 :: "number \<Rightarrow> number \<Rightarrow> number" where
  "Math_min2 x y = (if x = NaN \<or> y = NaN then NaN else if num_lt y x then y else x)"

definition Math_max :: "number list \<Rightarrow> number" where
  "Math_max xs = foldl Math_max2 NegInfinity xs"

definition Math_min :: "number list \<Rightarrow> number" where
  "Math_min xs = foldl Math_min2 PosInfinity xs"

section \<open>Data model (ArtificialNeuron.tsx, lines 3-19)\<close>

record Input =
  input_id :: string
  input_value :: number
  input_weight :: number

record ActivationFunction =
  act_name :: string
  act_fn :: "number \<Rightarrow> number"
  derivative :: "(number \<Rightarrow> number) option"

text \<open>
  The \<^verbatim>\<open>formula\<close> field of an aggregation function builds a display string out of
  formatted numbers; it takes no part in the computed values and is left out.
\<close>

record AggregationFunction =
  agg_name :: string
  agg_fn :: "Input list \<Rightarrow> number"

section \<open>Aggregation registry (lines 21-54)\<close>

definition agg_Sum :: AggregationFunction where
  "agg_Sum = \<lparr>agg_name = ''Sum'',
     agg_fn = (\<lambda>inputs.
       foldl (\<lambda>sum input. num_add sum (num_mul (input_value input) (input_weight input))) (Fin 0) inputs)\<rparr>"

definition agg_Product :: AggregationFunction where
  "agg_Product = \<lparr>agg_name = ''Product'',
     agg_fn = (\<lambda>inputs.
       foldl (\<lambda>prod input. num_mul prod (num_mul (input_value input) (input_weight input))) (Fin 1) inputs)\<rparr>"

definition agg_Maximum :: AggregationFunction where
  "agg_Maximum = \<lparr>agg_name = ''Maximum'',
     agg_fn = (\<lambda>inputs. Math_max (map (\<lambda>input. num_mul (input_value input) (input_weight input)) inputs))\<rparr>"

definition agg_Minimum :: AggregationFunction where
  "agg_Minimum = \<lparr>agg_name = ''Minimum'',
     agg_fn = (\<lambda>inputs. Math_min (map (\<lambda>input. num_mul (input_value input) (input_weight input)) inputs))\<rparr>"

definition aggregationFunctions :: "AggregationFunction list" where
  "aggregationFunctions = [agg_Sum, agg_Product, agg_Maximum, agg_Minimum]"

section \<open>Activation registry (lines 56-85)\<close>

definition act_Sigmoid :: ActivationFunction where
  "act_Sigmoid = \<lparr>act_name = ''Sigmoid'',
     act_fn = (\<lambda>x. num_div (Fin 1) (num_add (Fin 1) (Math_exp (num_neg x)))),
     derivative = Some (\<lambda>x.
       let sigmoid = num_div (Fin 1) (num_add (Fin 1) (Math_exp (num_neg x)))
       in num_mul sigmoid (num_sub (Fin 1) sigmoid))\<rparr>"

definition act_Tanh :: ActivationFunction where
  "act_Tanh = \<lparr>act_name = ''Tanh'',
     act_fn = (\<lambda>x. Math_tanh x),
     derivative = Some (\<lambda>x. num_sub (Fin 1) (num_mul (Math_tanh x) (Math_tanh x)))\<rparr>"

definition act_Linear :: ActivationFunction where
  "act_Linear = \<lparr>act_name = ''Linear'',
     act_fn = (\<lambda>x. x),
     derivative = Some (\<lambda>x. Fin 1)\<rparr>"

definition act_Step :: ActivationFunction where
  "act_Step = \<lparr>act_name = ''Step'',
     act_fn = (\<lambda>x. if num_ge x (Fin 0) then Fin 1 else Fin 0),
     derivative = Some (\<lambda>x. Fin 0)\<rparr>"

definition act_Sign :: ActivationFunction where
  "act_Sign = \<lparr>act_name = ''Sign'',
     act_fn = (\<lambda>x. if num_gt x (Fin 0) then Fin 1 else Fin (- 1)),
     derivative = Some (\<lambda>x. Fin 0)\<rparr>"

definition activationFunctions :: "ActivationFunction list" where
  "activationFunctions = [act_Sigmoid, act_Tanh, act_Linear, act_Step, act_Sign]"

section \<open>Neuron evaluator (lines 110-132)\<close>

text \<open>
  The two memoised values, as functions of their dependency lists:
  \<^verbatim>\<open>[inputs, theta, selectedAggregation]\<close> and
  \<^verbatim>\<open>[selectedFunction, aggregatedValue, linearSlope, sigmoidGain]\<close>.
  The memo \<^verbatim>\<open>output\<close> is named \<open>output_value\<close>, and the local
  \<^verbatim>\<open>linearOutput\<close> of its Linear branch is a definition of its own.
\<close>

definition aggregatedValue :: "AggregationFunction \<Rightarrow> Input list \<Rightarrow> number \<Rightarrow> number" where
  "aggregatedValue selectedAggregation inputs theta =
     (let baseValue = agg_fn selectedAggregation inputs
      in num_add baseValue theta)"

definition linearOutput :: "number \<Rightarrow> number \<Rightarrow> number" where
  "linearOutput linearSlope aggregated =
     (if num_neq linearSlope (Fin 0) then num_div aggregated linearSlope else aggregated)"

definition output_value :: "ActivationFunction \<Rightarrow> number \<Rightarrow> number \<Rightarrow> number \<Rightarrow> number" where
  "output_value selectedFunction aggregated linearSlope sigmoidGain =
     (if act_name selectedFunction = ''Linear''
        then Math_max [Fin (- 1), Math_min [Fin 1, linearOutput linearSlope aggregated]]
      else if act_name selectedFunction = ''Sigmoid''
        then num_div (Fin 1) (num_add (Fin 1) (Math_exp (num_mul (num_neg sigmoidGain) aggregated)))
      else if act_name selectedFunction = ''Tanh''
        then Math_tanh (num_mul sigmoidGain aggregated)
      else act_fn selectedFunction aggregated)"

section \<open>Component state and its handlers (lines 88-99 and 248-294)\<close>

record State =
  inputs :: "Input list"
  selectedAggregation :: AggregationFunction
  selectedFunction :: ActivationFunction
  theta :: number
  thetaInput :: string
  linearSlope :: number
  linearSlopeInput :: string
  sigmoidGain :: number
  sigmoidGainInput :: string

definition initialState :: State where
  "initialState = \<lparr>
     inputs = [\<lparr>input_id = ''1'', input_value = Fin 0, input_weight = Fin 1\<rparr>,
               \<lparr>input_id = ''2'', input_value = Fin 0, input_weight = Fin 1\<rparr>],
     selectedAggregation = aggregationFunctions ! 0,
     selectedFunction = activationFunctions ! 0,
     theta = Fin 0, thetaInput = ''0'',
     linearSlope = Fin 1, linearSlopeInput = ''1'',
     sigmoidGain = Fin 1, sigmoidGainInput = ''1''\<rparr>"

text \<open>\<^verbatim>\<open>Number.prototype.toString\<close> on a natural number: its decimal digits.\<close>

definition digit :: "nat \<Rightarrow> char" where
  "digit d = ''0123456789'' ! d"

function toString :: "nat \<Rightarrow> string" where
  "toString n = (if n < 10 then [digit n] else toString (n div 10) @ [digit (n mod 10)])"
  by pat_completeness auto
termination
  by (relation "measure (\<lambda>n. n)") auto

declare toString.simps [simp del]

definition addInput :: "State \<Rightarrow> State" where
  "addInput s =
     (let newId = toString (length (inputs s) + 1)
      in s\<lparr>inputs := inputs s @ [\<lparr>input_id = newId, input_value = Fin 0, input_weight = Fin 1\<rparr>]\<rparr>)"

definition removeInput :: "string \<Rightarrow> State \<Rightarrow> State" where
  "removeInput i s =
     (if length (inputs s) > 1
      then s\<lparr>inputs := filter (\<lambda>input. input_id input \<noteq> i) (inputs s)\<rparr>
      else s)"

text \<open>
  \<^verbatim>\<open>parseFloat\<close> is a built-in of the language, not code of the component: the handlers
  take it as a parameter, a function from the text to the parsed number (NaN when the
  text does not start with a number).
\<close>

datatype Field = Field_value | Field_weight

definition updateInput :: "(string \<Rightarrow> number) \<Rightarrow> string \<Rightarrow> Field \<Rightarrow> string \<Rightarrow> State \<Rightarrow> State" where
  "updateInput parseFloat i field v s =
     s\<lparr>inputs := map (\<lambda>input.
          if input_id input = i
          then (let n = (if v = '''' then Fin 0 else num_or (parseFloat v) (Fin 0))
                in (case field of
                      Field_value \<Rightarrow> input\<lparr>input_value := n\<rparr>
                    | Field_weight \<Rightarrow> input\<lparr>input_weight := n\<rparr>))
          else input) (inputs s)\<rparr>"

definition handleThetaChange :: "(string \<Rightarrow> number) \<Rightarrow> string \<Rightarrow> State \<Rightarrow> State" where
  "handleThetaChange parseFloat v s =
     s\<lparr>thetaInput := v,
       theta := (if v = '''' then Fin 0 else num_or (parseFloat v) (Fin 0))\<rparr>"

definition handleLinearSlopeChange :: "(string \<Rightarrow> number) \<Rightarrow> string \<Rightarrow> State \<Rightarrow> State" where
  "handleLinearSlopeChange parseFloat v s =
     (let s1 = s\<lparr>linearSlopeInput := v\<rparr>; numValue = parseFloat v
      in if v = '''' then s1\<lparr>linearSlope := Fin 1\<rparr>
         else if \<not> isNaN numValue \<and> num_ge numValue (Fin 1) then s1\<lparr>linearSlope := numValue\<rparr>
         else s1\<lparr>linearSlope := Fin 1\<rparr>)"

definition handleSigmoidGainChange :: "(string \<Rightarrow> number) \<Rightarrow> string \<Rightarrow> State \<Rightarrow> State" where
  "handleSigmoidGainChange parseFloat v s =
     (let s1 = s\<lparr>sigmoidGainInput := v\<rparr>; numValue = parseFloat v
      in if v = '''' then s1\<lparr>sigmoidGain := Fin 1\<rparr>
         else if \<not> isNaN numValue \<and> num_gt numValue (Fin 1) then s1\<lparr>sigmoidGain := numValue\<rparr>
         else s1\<lparr>sigmoidGain := Fin (11 / 10)\<rparr>)"

subsection \<open>The controls that call addInput and removeInput (lines 328-372)\<close>

text \<open>
  The add button is disabled when \<^verbatim>\<open>inputs.length >= 10\<close>; a remove button is rendered
  on each row when \<^verbatim>\<open>inputs.length > 1\<close> and calls \<^verbatim>\<open>removeInput\<close> with that row's
  identifier. A click on a control that is disabled or not rendered changes nothing.
\<close>

datatype Event = ClickAddInput | ClickRemoveInput nat

fun enabled :: "State \<Rightarrow> Event \<Rightarrow> bool" where
  "enabled s ClickAddInput = (\<not> length (inputs s) \<ge> 10)"
| "enabled s (ClickRemoveInput k) = (length (inputs s) > 1 \<and> k < length (inputs s))"

fun fire :: "State \<Rightarrow> Event \<Rightarrow> State" where
  "fire s ClickAddInput = (if enabled s ClickAddInput then addInput s else s)"
| "fire s (ClickRemoveInput k) =
     (if enabled s (ClickRemoveInput k) then removeInput (input_id (inputs s ! k)) s else s)"

definition run :: "State \<Rightarrow> Event list \<Rightarrow> State" where
  "run s events = foldl fire s events"

section \<open>Pan and zoom of the second component variant (part_000, lines 76-153)\<close>

record Viewport =
  panX :: number
  panY :: number
  zoom :: number
  isDragging :: bool
  dragStart :: "number \<times> number"

definition initialViewport :: Viewport where
  "initialViewport =
     \<lparr>panX = Fin 0, panY = Fin 0, zoom = Fin 1, isDragging = False, dragStart = (Fin 0, Fin 0)\<rparr>"

definition handleZoomIn :: "Viewport \<Rightarrow> Viewport" where
  "handleZoomIn v = v\<lparr>zoom := Math_min [num_mul (zoom v) (Fin (12 / 10)), Fin (15 / 10)]\<rparr>"

definition handleZoomOut :: "Viewport \<Rightarrow> Viewport" where
  "handleZoomOut v = v\<lparr>zoom := Math_max [num_div (zoom v) (Fin (12 / 10)), Fin (2 / 10)]\<rparr>"

definition handleResetView :: "Viewport \<Rightarrow> Viewport" where
  "handleResetView v = v\<lparr>panX := Fin 0, panY := Fin 0, zoom := Fin 1\<rparr>"

definition handleWheel :: "number \<Rightarrow> Viewport \<Rightarrow> Viewport" where
  "handleWheel deltaY v =
     (let delta = (if num_gt deltaY (Fin 0) then Fin (9 / 10) else Fin (11 / 10))
      in v\<lparr>zoom := Math_max [Fin (2 / 10), Math_min [Fin (15 / 10), num_mul (zoom v) delta]]\<rparr>)"

definition handleMouseDown :: "number \<Rightarrow> number \<Rightarrow> Viewport \<Rightarrow> Viewport" where
  "handleMouseDown clientX clientY v =
     v\<lparr>isDragging := True, dragStart := (num_sub clientX (panX v), num_sub clientY (panY v))\<rparr>"

definition handleMouseMove :: "number \<Rightarrow> number \<Rightarrow> Viewport \<Rightarrow> Viewport" where
  "handleMouseMove clientX clientY v =
     (if isDragging v
      then v\<lparr>panX := num_sub clientX (fst (dragStart v)), panY := num_sub clientY (snd (dragStart v))\<rparr>
      else v)"

definition handleMouseUp :: "Viewport \<Rightarrow> Viewport" where
  "handleMouseUp v = v\<lparr>isDragging := False\<rparr>"

definition handleMouseLeave :: "Viewport \<Rightarrow> Viewport" where
  "handleMouseLeave v = v\<lparr>isDragging := False\<rparr>"

section \<open>Aggregation\<close>

text \<open>
  The comparison \<^verbatim>\<open><=\<close> orders the numbers other than NaN, and \<^verbatim>\<open>Math.max\<close> and
  \<^verbatim>\<open>Math.min\<close> of arguments other than NaN return one of the arguments, the greatest
  and the least; one NaN among the arguments makes the result NaN.
\<close>

lemma num_le_refl: "x \<noteq> NaN \<Longrightarrow> num_le x x"
  by (cases x) simp_all

lemma num_le_trans: "num_le x y \<Longrightarrow> num_le y z \<Longrightarrow> num_le x z"
  by (cases x; cases y; cases z) simp_all

lemma num_lt_le: "num_lt x y \<Longrightarrow> num_le x y"
  by (cases x; cases y) simp_all

lemma not_num_lt_le: "x \<noteq> NaN \<Longrightarrow> y \<noteq> NaN \<Longrightarrow> \<not> num_lt x y \<Longrightarrow> num_le y x"
  by (cases x; cases y) simp_all

lemma num_le_not_NaN: "num_le x y \<Longrightarrow> x \<noteq> NaN \<and> y \<noteq> NaN"
  by (cases x; cases y) simp_all

lemma Math_max2_cases:
  "x \<noteq> NaN \<Longrightarrow> y \<noteq> NaN \<Longrightarrow>
     (Math_max2 x y = x \<or> Math_max2 x y = y) \<and> num_le x (Math_max2 x y) \<and> num_le y (Math_max2 x y)"
  by (simp add: Math_max2_def num_le_refl num_lt_le not_num_lt_le)

lemma Math_min2_cases:
  "x \<noteq> NaN \<Longrightarrow> y \<noteq> NaN \<Longrightarrow>
     (Math_min2 x y = x \<or> Math_min2 x y = y) \<and> num_le (Math_min2 x y) x \<and> num_le (Math_min2 x y) y"
  by (simp add: Math_min2_def num_le_refl num_lt_le not_num_lt_le)

lemma foldl_Math_max2_greatest:
  "NaN \<notin> set xs \<Longrightarrow> acc \<noteq> NaN \<Longrightarrow>
     (foldl Math_max2 acc xs = acc \<or> foldl Math_max2 acc xs \<in> set xs)
     \<and> num_le acc (foldl Math_max2 acc xs)
     \<and> (\<forall>x \<in> set xs. num_le x (foldl Math_max2 acc xs))"
proof (induction xs arbitrary: acc)
  case Nil
  then show ?case by (simp add: num_le_refl)
next
  case (Cons y ys)
  from Cons.prems have y: "y \<noteq> NaN" and ys: "NaN \<notin> set ys" by auto
  from Math_max2_cases [OF Cons.prems(2) y]
  have step: "Math_max2 acc y = acc \<or> Math_max2 acc y = y"
    and le1: "num_le acc (Math_max2 acc y)" and le2: "num_le y (Math_max2 acc y)" by auto
  from le1 have "Math_max2 acc y \<noteq> NaN" by (auto dest: num_le_not_NaN)
  from Cons.IH [OF ys this]
  have ih1: "foldl Math_max2 (Math_max2 acc y) ys = Math_max2 acc y
        \<or> foldl Math_max2 (Math_max2 acc y) ys \<in> set ys"
    and ih2: "num_le (Math_max2 acc y) (foldl Math_max2 (Math_max2 acc y) ys)"
    and ih3: "\<forall>x \<in> set ys. num_le x (foldl Math_max2 (Math_max2 acc y) ys)" by auto
  from step ih1 have "foldl Math_max2 acc (y # ys) = acc \<or> foldl Math_max2 acc (y # ys) \<in> set (y # ys)"
    by auto
  moreover from le1 ih2 have "num_le acc (foldl Math_max2 acc (y # ys))"
    by (auto intro: num_le_trans)
  moreover from le2 ih2 ih3 have "\<forall>x \<in> set (y # ys). num_le x (foldl Math_max2 acc (y # ys))"
    by (auto intro: num_le_trans)
  ultimately show ?case by blast
qed

lemma foldl_Math_min2_least:
  "NaN \<notin> set xs \<Longrightarrow> acc \<noteq> NaN \<Longrightarrow>
     (foldl Math_min2 acc xs = acc \<or> foldl Math_min2 acc xs \<in> set xs)
     \<and> num_le (foldl Math_min2 acc xs) acc
     \<and> (\<forall>x \<in> set xs. num_le (foldl Math_min2 acc xs) x)"
proof (induction xs arbitrary: acc)
  case Nil
  then show ?case by (simp add: num_le_refl)
next
  case (Cons y ys)
  from Cons.prems have y: "y \<noteq> NaN" and ys: "NaN \<notin> set ys" by auto
  from Math_min2_cases [OF Cons.prems(2) y]
  have step: "Math_min2 acc y = acc \<or> Math_min2 acc y = y"
    and le1: "num_le (Math_min2 acc y) acc" and le2: "num_le (Math_min2 acc y) y" by auto
  from le1 have "Math_min2 acc y \<noteq> NaN" by (auto dest: num_le_not_NaN)
  from Cons.IH [OF ys this]
  have ih1: "foldl Math_min2 (Math_min2 acc y) ys = Math_min2 acc y
        \<or> foldl Math_min2 (Math_min2 acc y) ys \<in> set ys"
    and ih2: "num_le (foldl Math_min2 (Math_min2 acc y) ys) (Math_min2 acc y)"
    and ih3: "\<forall>x \<in> set ys. num_le (foldl Math_min2 (Math_min2 acc y) ys) x" by auto
  from step ih1 have "foldl Math_min2 acc (y # ys) = acc \<or> foldl Math_min2 acc (y # ys) \<in> set (y # ys)"
    by auto
  moreover from le1 ih2 have "num_le (foldl Math_min2 acc (y # ys)) acc"
    by (auto intro: num_le_trans)
  moreover from le2 ih2 ih3 have "\<forall>x \<in> set (y # ys). num_le (foldl Math_min2 acc (y # ys)) x"
    by (auto intro: num_le_trans)
  ultimately show ?case by blast
qed

lemma num_le_NegInfinity: "num_le x NegInfinity \<Longrightarrow> x = NegInfinity"
  by (cases x) simp_all

lemma num_le_PosInfinity: "num_le PosInfinity x \<Longrightarrow> x = PosInfinity"
  by (cases x) simp_all

lemma Math_max_greatest:
  assumes "xs \<noteq> []" and "NaN \<notin> set xs"
  shows "Math_max xs \<in> set xs \<and> (\<forall>x \<in> set xs. num_le x (Math_max xs))"
proof -
  from foldl_Math_max2_greatest [OF assms(2), of NegInfinity]
  have a: "Math_max xs = NegInfinity \<or> Math_max xs \<in> set xs"
    and b: "\<forall>x \<in> set xs. num_le x (Math_max xs)" by (auto simp: Math_max_def)
  from assms(1) obtain y where y: "y \<in> set xs" by (cases xs) auto
  show ?thesis
  proof (cases "Math_max xs = NegInfinity")
    case True
    with b y have "y = NegInfinity" by (auto dest: num_le_NegInfinity)
    with y True b show ?thesis by simp
  next
    case False
    with a b show ?thesis by simp
  qed
qed

lemma Math_min_least:
  assumes "xs \<noteq> []" and "NaN \<notin> set xs"
  shows "Math_min xs \<in> set xs \<and> (\<forall>x \<in> set xs. num_le (Math_min xs) x)"
proof -
  from foldl_Math_min2_least [OF assms(2), of PosInfinity]
  have a: "Math_min xs = PosInfinity \<or> Math_min xs \<in> set xs"
    and b: "\<forall>x \<in> set xs. num_le (Math_min xs) x" by (auto simp: Math_min_def)
  from assms(1) obtain y where y: "y \<in> set xs" by (cases xs) auto
  show ?thesis
  proof (cases "Math_min xs = PosInfinity")
    case True
    with b y have "y = PosInfinity" by (auto dest: num_le_PosInfinity)
    with y True b show ?thesis by simp
  next
    case False
    with a b show ?thesis by simp
  qed
qed

lemma foldl_Math_max2_NaN_acc: "foldl Math_max2 NaN xs = NaN"
  by (induction xs) (simp_all add: Math_max2_def)

lemma foldl_Math_min2_NaN_acc: "foldl Math_min2 NaN xs = NaN"
  by (induction xs) (simp_all add: Math_min2_def)

lemma Math_max_NaN: "NaN \<in> set xs \<Longrightarrow> Math_max xs = NaN"
proof -
  have "NaN \<in> set xs \<Longrightarrow> foldl Math_max2 acc xs = NaN" for acc
    by (induction xs arbitrary: acc) (auto simp: Math_max2_def foldl_Math_max2_NaN_acc)
  then show "NaN \<in> set xs \<Longrightarrow> Math_max xs = NaN" by (simp add: Math_max_def)
qed

lemma Math_min_NaN: "NaN \<in> set xs \<Longrightarrow> Math_min xs = NaN"
proof -
  have "NaN \<in> set xs \<Longrightarrow> foldl Math_min2 acc xs = NaN" for acc
    by (induction xs arbitrary: acc) (auto simp: Math_min2_def foldl_Math_min2_NaN_acc)
  then show "NaN \<in> set xs \<Longrightarrow> Math_min xs = NaN" by (simp add: Math_min_def)
qed

text \<open>
  C1. For every selected aggregation function, every input collection and every theta, the
  aggregated value is the aggregation function applied to the inputs, plus theta; theta is
  no argument of the aggregation function. What each function computes from the inputs
  alone: Sum starts at 0 and adds the product value * weight of each input in turn, Product
  starts at 1 and multiplies by it; on a non-empty collection whose products are not NaN,
  Maximum is one of the products and no product is greater, Minimum is one of the products
  and no product is less; a product that is NaN makes both NaN. On the empty collection
  Maximum gives -Infinity and Minimum gives +Infinity, whatever the finite theta.
\<close>

theorem aggregatedValue_adds_theta:
  "aggregatedValue sel ins th = num_add (agg_fn sel ins) th
   \<and> agg_fn agg_Sum [] = Fin 0
   \<and> agg_fn agg_Sum (ins @ [input]) =
        num_add (agg_fn agg_Sum ins) (num_mul (input_value input) (input_weight input))
   \<and> agg_fn agg_Product [] = Fin 1
   \<and> agg_fn agg_Product (ins @ [input]) =
        num_mul (agg_fn agg_Product ins) (num_mul (input_value input) (input_weight input))
   \<and> (ins \<noteq> [] \<and> NaN \<notin> set (map (\<lambda>input. num_mul (input_value input) (input_weight input)) ins) \<longrightarrow>
        agg_fn agg_Maximum ins \<in> set (map (\<lambda>input. num_mul (input_value input) (input_weight input)) ins)
        \<and> (\<forall>p \<in> set (map (\<lambda>input. num_mul (input_value input) (input_weight input)) ins).
              num_le p (agg_fn agg_Maximum ins)))
   \<and> (ins \<noteq> [] \<and> NaN \<notin> set (map (\<lambda>input. num_mul (input_value input) (input_weight input)) ins) \<longrightarrow>
        agg_fn agg_Minimum ins \<in> set (map (\<lambda>input. num_mul (input_value input) (input_weight input)) ins)
        \<and> (\<forall>p \<in> set (map (\<lambda>input. num_mul (input_value input) (input_weight input)) ins).
              num_le (agg_fn agg_Minimum ins) p))
   \<and> (NaN \<in> set (map (\<lambda>input. num_mul (input_value input) (input_weight input)) ins) \<longrightarrow>
        agg_fn agg_Maximum ins = NaN \<and> agg_fn agg_Minimum ins = NaN)
   \<and> aggregatedValue agg_Maximum [] (Fin t) = NegInfinity
   \<and> aggregatedValue agg_Minimum [] (Fin t) = PosInfinity"
proof -
  let ?products = "map (\<lambda>input. num_mul (input_value input) (input_weight input)) ins"
  have general: "aggregatedValue sel ins th = num_add (agg_fn sel ins) th"
    by (simp add: aggregatedValue_def)
  have s0: "agg_fn agg_Sum [] = Fin 0"
    by (simp add: agg_Sum_def)
  have s1: "agg_fn agg_Sum (ins @ [input]) =
        num_add (agg_fn agg_Sum ins) (num_mul (input_value input) (input_weight input))"
    by (simp add: agg_Sum_def)
  have p0: "agg_fn agg_Product [] = Fin 1"
    by (simp add: agg_Product_def)
  have p1: "agg_fn agg_Product (ins @ [input]) =
        num_mul (agg_fn agg_Product ins) (num_mul (input_value input) (input_weight input))"
    by (simp add: agg_Product_def)
  have mx: "ins \<noteq> [] \<and> NaN \<notin> set ?products \<longrightarrow>
        agg_fn agg_Maximum ins \<in> set ?products
        \<and> (\<forall>p \<in> set ?products. num_le p (agg_fn agg_Maximum ins))"
  proof
    assume "ins \<noteq> [] \<and> NaN \<notin> set ?products"
    then have "?products \<noteq> []" and "NaN \<notin> set ?products" by simp_all
    from Math_max_greatest [OF this]
    show "agg_fn agg_Maximum ins \<in> set ?products
        \<and> (\<forall>p \<in> set ?products. num_le p (agg_fn agg_Maximum ins))"
      by (simp add: agg_Maximum_def)
  qed
  have mn: "ins \<noteq> [] \<and> NaN \<notin> set ?products \<longrightarrow>
        agg_fn agg_Minimum ins \<in> set ?products
        \<and> (\<forall>p \<in> set ?products. num_le (agg_fn agg_Minimum ins) p)"
  proof
    assume "ins \<noteq> [] \<and> NaN \<notin> set ?products"
    then have "?products \<noteq> []" and "NaN \<notin> set ?products" by simp_all
    from Math_min_least [OF this]
    show "agg_fn agg_Minimum ins \<in> set ?products
        \<and> (\<forall>p \<in> set ?products. num_le (agg_fn agg_Minimum ins) p)"
      by (simp add: agg_Minimum_def)
  qed
  have nan: "NaN \<in> set ?products \<longrightarrow> agg_fn agg_Maximum ins = NaN \<and> agg_fn agg_Minimum ins = NaN"
    by (simp add: agg_Maximum_def agg_Minimum_def Math_max_NaN Math_min_NaN del: set_map)
  have e1: "aggregatedValue agg_Maximum [] (Fin t) = NegInfinity"
    by (simp add: aggregatedValue_def agg_Maximum_def Math_max_def)
  have e2: "aggregatedValue agg_Minimum [] (Fin t) = PosInfinity"
    by (simp add: aggregatedValue_def agg_Minimum_def Math_min_def)
  from general s0 s1 p0 p1 mx mn nan e1 e2 show ?thesis
    by - (intro conjI, assumption+)
qed

text \<open>
  The inputs (2, 3) and (-1, 4) with theta 5: the products are 6 and -4, so Maximum is 6 and
  gives 11, Minimum is -4 and gives 1. The input (0, +Infinity): its product is NaN.
\<close>

theorem aggregatedValue_adds_theta_witness:
  "[\<lparr>input_id = ''1'', input_value = Fin 2, input_weight = Fin 3\<rparr>,
    \<lparr>input_id = ''2'', input_value = Fin (- 1), input_weight = Fin 4\<rparr>] \<noteq> []
   \<and> NaN \<notin> set (map (\<lambda>input. num_mul (input_value input) (input_weight input))
        [\<lparr>input_id = ''1'', input_value = Fin 2, input_weight = Fin 3\<rparr>,
         \<lparr>input_id = ''2'', input_value = Fin (- 1), input_weight = Fin 4\<rparr>])
   \<and> agg_fn agg_Maximum
        [\<lparr>input_id = ''1'', input_value = Fin 2, input_weight = Fin 3\<rparr>,
         \<lparr>input_id = ''2'', input_value = Fin (- 1), input_weight = Fin 4\<rparr>] = Fin 6
   \<and> aggregatedValue agg_Maximum
        [\<lparr>input_id = ''1'', input_value = Fin 2, input_weight = Fin 3\<rparr>,
         \<lparr>input_id = ''2'', input_value = Fin (- 1), input_weight = Fin 4\<rparr>] (Fin 5) = Fin 11
   \<and> agg_fn agg_Minimum
        [\<lparr>input_id = ''1'', input_value = Fin 2, input_weight = Fin 3\<rparr>,
         \<lparr>input_id = ''2'', input_value = Fin (- 1), input_weight = Fin 4\<rparr>] = Fin (- 4)
   \<and> aggregatedValue agg_Minimum
        [\<lparr>input_id = ''1'', input_value = Fin 2, input_weight = Fin 3\<rparr>,
         \<lparr>input_id = ''2'', input_value = Fin (- 1), input_weight = Fin 4\<rparr>] (Fin 5) = Fin 1
   \<and> NaN \<in> set (map (\<lambda>input. num_mul (input_value input) (input_weight input))
        [\<lparr>input_id = ''1'', input_value = Fin 0, input_weight = PosInfinity\<rparr>])
   \<and> agg_fn agg_Maximum [\<lparr>input_id = ''1'', input_value = Fin 0, input_weight = PosInfinity\<rparr>] = NaN
   \<and> agg_fn agg_Minimum [\<lparr>input_id = ''1'', input_value = Fin 0, input_weight = PosInfinity\<rparr>] = NaN"
  using aggregatedValue_adds_theta [where sel = agg_Maximum and th = "Fin 5" and t = 5
      and input = "\<lparr>input_id = ''3'', input_value = Fin 0, input_weight = Fin 1\<rparr>"
      and ins = "[\<lparr>input_id = ''1'', input_value = Fin 2, input_weight = Fin 3\<rparr>,
                  \<lparr>input_id = ''2'', input_value = Fin (- 1), input_weight = Fin 4\<rparr>]"]
    aggregatedValue_adds_theta [where sel = agg_Minimum and th = "Fin 5" and t = 5
      and input = "\<lparr>input_id = ''3'', input_value = Fin 0, input_weight = Fin 1\<rparr>"
      and ins = "[\<lparr>input_id = ''1'', input_value = Fin 2, input_weight = Fin 3\<rparr>,
                  \<lparr>input_id = ''2'', input_value = Fin (- 1), input_weight = Fin 4\<rparr>]"]
    aggregatedValue_adds_theta [where sel = agg_Maximum and th = "Fin 5" and t = 5
      and input = "\<lparr>input_id = ''3'', input_value = Fin 0, input_weight = Fin 1\<rparr>"
      and ins = "[\<lparr>input_id = ''1'', input_value = Fin 0, input_weight = PosInfinity\<rparr>]"]
  by (simp add: agg_Maximum_def agg_Minimum_def Math_max_def Math_min_def Math_max2_def Math_min2_def)

section \<open>The evaluator\<close>

lemma num_mul_NaN: "num_mul x NaN = NaN"
  by (cases x) simp_all

lemma num_le_not_gt: "num_le x y \<Longrightarrow> \<not> num_lt y x"
  by (cases x; cases y) simp_all

lemma Math_max_pair: "Math_max [x, y] = Math_max2 x y"
  by (cases x) (simp_all add: Math_max_def Math_max2_def)

lemma Math_min_pair: "Math_min [x, y] = Math_min2 x y"
  by (cases x) (simp_all add: Math_min_def Math_min2_def)

lemma clamp_range:
  "x \<noteq> NaN \<Longrightarrow> num_le (Fin (- 1)) (Math_max2 (Fin (- 1)) (Math_min2 (Fin 1) x))
     \<and> num_le (Math_max2 (Fin (- 1)) (Math_min2 (Fin 1) x)) (Fin 1)"
  by (cases x) (simp_all add: Math_max2_def Math_min2_def)

lemma linearOutput_not_NaN: "a \<noteq> NaN \<Longrightarrow> linearOutput (Fin s) a \<noteq> NaN"
  by (cases a) (simp_all add: linearOutput_def num_neq_def)

lemma Sigmoid_closed:
  "x \<noteq> NaN \<Longrightarrow> g \<noteq> 0 \<or> x \<noteq> NegInfinity \<and> x \<noteq> PosInfinity \<Longrightarrow>
     num_le (Fin 0) (output_value act_Sigmoid x slope (Fin g))
     \<and> num_le (output_value act_Sigmoid x slope (Fin g)) (Fin 1)"
proof (cases x)
  case (Fin a)
  have "0 < 1 + exp (- (g * a))"
    using exp_gt_zero [of "- (g * a)"] by linarith
  with Fin show ?thesis
    by (simp add: output_value_def act_Sigmoid_def less_imp_le)
qed (auto simp: output_value_def act_Sigmoid_def)

lemma Tanh_closed:
  "x \<noteq> NaN \<Longrightarrow> g \<noteq> 0 \<or> x \<noteq> NegInfinity \<and> x \<noteq> PosInfinity \<Longrightarrow>
     num_le (Fin (- 1)) (output_value act_Tanh x slope (Fin g))
     \<and> num_le (output_value act_Tanh x slope (Fin g)) (Fin 1)"
proof (cases x)
  case (Fin a)
  then show ?thesis
    by (simp add: output_value_def act_Tanh_def less_imp_le tanh_real_gt_neg1 tanh_real_lt_1)
qed (auto simp: output_value_def act_Tanh_def)

text \<open>
  C2, as stated, fails where the aggregated value is not finite. Maximum over an empty
  collection is -Infinity; there Sigmoid with gain 1 gives exactly 0, which is not greater
  than 0, and Tanh gives exactly -1, which is not greater than -1. With the gain +Infinity,
  which is greater than 1, Sigmoid gives exactly 1 at the aggregated value 1. At the
  aggregated value NaN, Linear gives NaN, which is not in [-1, 1].
\<close>

theorem output_value_at_special_values:
  "aggregatedValue agg_Maximum [] (Fin 0) = NegInfinity
   \<and> output_value act_Sigmoid NegInfinity (Fin 1) (Fin 1) = Fin 0
   \<and> \<not> num_lt (Fin 0) (output_value act_Sigmoid NegInfinity (Fin 1) (Fin 1))
   \<and> output_value act_Tanh NegInfinity (Fin 1) (Fin 1) = Fin (- 1)
   \<and> \<not> num_lt (Fin (- 1)) (output_value act_Tanh NegInfinity (Fin 1) (Fin 1))
   \<and> output_value act_Sigmoid (Fin 1) (Fin 1) PosInfinity = Fin 1
   \<and> \<not> num_lt (output_value act_Sigmoid (Fin 1) (Fin 1) PosInfinity) (Fin 1)
   \<and> output_value act_Linear NaN (Fin 1) (Fin 1) = NaN
   \<and> \<not> num_le (Fin (- 1)) (output_value act_Linear NaN (Fin 1) (Fin 1))"
  by (simp add: aggregatedValue_def agg_Maximum_def output_value_def act_Sigmoid_def act_Tanh_def
      act_Linear_def linearOutput_def num_neq_def Math_max_def Math_min_def Math_max2_def Math_min2_def)

text \<open>
  C2, amended. For every finite aggregated value and finite gain, and for every aggregated
  value but NaN and every finite gain but 0, the output lies between 0 and 1, bounds
  included, when Sigmoid is selected and between -1 and 1, bounds included, when Tanh is
  selected. For every aggregated value the output is 0 or 1 when Step is selected and -1 or
  1 when Sign is selected. For every aggregated value but NaN and every finite slope the
  output lies between -1 and 1, bounds included, when Linear is selected. At an infinite
  aggregated value with a positive finite gain Sigmoid gives exactly 0 or 1 and Tanh
  exactly -1 or 1; at NaN Sigmoid, Tanh and Linear give NaN.
\<close>

theorem output_value_ranges:
  "(num_le (Fin 0) (output_value act_Sigmoid (Fin a) slope (Fin g))
      \<and> num_le (output_value act_Sigmoid (Fin a) slope (Fin g)) (Fin 1))
   \<and> (num_le (Fin (- 1)) (output_value act_Tanh (Fin a) slope (Fin g))
      \<and> num_le (output_value act_Tanh (Fin a) slope (Fin g)) (Fin 1))
   \<and> (x \<noteq> NaN \<and> g \<noteq> 0 \<longrightarrow>
        num_le (Fin 0) (output_value act_Sigmoid x slope (Fin g))
        \<and> num_le (output_value act_Sigmoid x slope (Fin g)) (Fin 1)
        \<and> num_le (Fin (- 1)) (output_value act_Tanh x slope (Fin g))
        \<and> num_le (output_value act_Tanh x slope (Fin g)) (Fin 1))
   \<and> output_value act_Step x slope gain \<in> {Fin 0, Fin 1}
   \<and> output_value act_Sign x slope gain \<in> {Fin (- 1), Fin 1}
   \<and> (x \<noteq> NaN \<longrightarrow> num_le (Fin (- 1)) (output_value act_Linear x (Fin s) gain)
      \<and> num_le (output_value act_Linear x (Fin s) gain) (Fin 1))
   \<and> (0 < g \<longrightarrow> output_value act_Sigmoid NegInfinity slope (Fin g) = Fin 0
      \<and> output_value act_Sigmoid PosInfinity slope (Fin g) = Fin 1
      \<and> output_value act_Tanh NegInfinity slope (Fin g) = Fin (- 1)
      \<and> output_value act_Tanh PosInfinity slope (Fin g) = Fin 1)
   \<and> (output_value act_Sigmoid NaN slope gain = NaN
      \<and> output_value act_Tanh NaN slope gain = NaN
      \<and> output_value act_Linear NaN slope gain = NaN)"
proof -
  have sigmoid: "num_le (Fin 0) (output_value act_Sigmoid (Fin a) slope (Fin g))
      \<and> num_le (output_value act_Sigmoid (Fin a) slope (Fin g)) (Fin 1)"
    by (rule Sigmoid_closed) simp_all
  have tanh: "num_le (Fin (- 1)) (output_value act_Tanh (Fin a) slope (Fin g))
      \<and> num_le (output_value act_Tanh (Fin a) slope (Fin g)) (Fin 1)"
    by (rule Tanh_closed) simp_all
  have nonzero: "x \<noteq> NaN \<and> g \<noteq> 0 \<longrightarrow>
        num_le (Fin 0) (output_value act_Sigmoid x slope (Fin g))
        \<and> num_le (output_value act_Sigmoid x slope (Fin g)) (Fin 1)
        \<and> num_le (Fin (- 1)) (output_value act_Tanh x slope (Fin g))
        \<and> num_le (output_value act_Tanh x slope (Fin g)) (Fin 1)"
    using Sigmoid_closed [of x g slope] Tanh_closed [of x g slope] by blast
  have step: "output_value act_Step x slope gain \<in> {Fin 0, Fin 1}"
    by (simp add: output_value_def act_Step_def)
  have sign: "output_value act_Sign x slope gain \<in> {Fin (- 1), Fin 1}"
    by (simp add: output_value_def act_Sign_def)
  have linear: "x \<noteq> NaN \<longrightarrow> num_le (Fin (- 1)) (output_value act_Linear x (Fin s) gain)
      \<and> num_le (output_value act_Linear x (Fin s) gain) (Fin 1)"
  proof
    assume "x \<noteq> NaN"
    then have "linearOutput (Fin s) x \<noteq> NaN" by (rule linearOutput_not_NaN)
    then show "num_le (Fin (- 1)) (output_value act_Linear x (Fin s) gain)
      \<and> num_le (output_value act_Linear x (Fin s) gain) (Fin 1)"
      by (simp add: output_value_def act_Linear_def Math_max_pair Math_min_pair clamp_range)
  qed
  have infinite: "0 < g \<longrightarrow> output_value act_Sigmoid NegInfinity slope (Fin g) = Fin 0
      \<and> output_value act_Sigmoid PosInfinity slope (Fin g) = Fin 1
      \<and> output_value act_Tanh NegInfinity slope (Fin g) = Fin (- 1)
      \<and> output_value act_Tanh PosInfinity slope (Fin g) = Fin 1"
    by (simp add: output_value_def act_Sigmoid_def act_Tanh_def)
  have nan: "output_value act_Sigmoid NaN slope gain = NaN
      \<and> output_value act_Tanh NaN slope gain = NaN
      \<and> output_value act_Linear NaN slope gain = NaN"
    by (simp add: output_value_def act_Sigmoid_def act_Tanh_def act_Linear_def linearOutput_def
        Math_max_def Math_min_def Math_max2_def Math_min2_def num_mul_NaN)
  from sigmoid tanh nonzero step sign linear infinite nan show ?thesis
    by blast
qed

text \<open>Sigmoid and Tanh at +Infinity with gain 3, and Linear at +Infinity with slope 2.\<close>

theorem output_value_ranges_witness:
  "PosInfinity \<noteq> NaN \<and> (3::real) \<noteq> 0
   \<and> num_le (Fin 0) (output_value act_Sigmoid PosInfinity (Fin 2) (Fin 3))
   \<and> num_le (output_value act_Sigmoid PosInfinity (Fin 2) (Fin 3)) (Fin 1)
   \<and> num_le (Fin (- 1)) (output_value act_Tanh PosInfinity (Fin 2) (Fin 3))
   \<and> num_le (output_value act_Tanh PosInfinity (Fin 2) (Fin 3)) (Fin 1)
   \<and> num_le (Fin (- 1)) (output_value act_Linear PosInfinity (Fin 2) (Fin 1))
   \<and> num_le (output_value act_Linear PosInfinity (Fin 2) (Fin 1)) (Fin 1)
   \<and> (0::real) < 3 \<and> output_value act_Sigmoid PosInfinity (Fin 2) (Fin 3) = Fin 1"
  using output_value_ranges [where x = PosInfinity and s = 2 and gain = "Fin 1" and g = 3 and slope = "Fin 2" and a = 0]
  by simp

text \<open>
  C6. With the inputs (2, 2) and (3, 3), Product aggregation and theta 1 the aggregated value
  is 37; with Linear activation and slope 10 the value before clamping is 3.7 and the
  output is 1.
\<close>

theorem scenario_product_linear:
  "aggregatedValue agg_Product
     [\<lparr>input_id = ''1'', input_value = Fin 2, input_weight = Fin 2\<rparr>,
      \<lparr>input_id = ''2'', input_value = Fin 3, input_weight = Fin 3\<rparr>] (Fin 1) = Fin 37
   \<and> linearOutput (Fin 10) (Fin 37) = Fin (37 / 10)
   \<and> output_value act_Linear (Fin 37) (Fin 10) gain = Fin 1"
  by (simp add: aggregatedValue_def agg_Product_def linearOutput_def output_value_def act_Linear_def
      num_neq_def Math_max_def Math_min_def Math_max2_def Math_min2_def)

text \<open>
  C7. With the single input (5, 1), theta -5 and Sum aggregation the aggregated value is 0,
  Step maps it to 1, and Step is 1 at every argument greater than or equal to 0.
\<close>

theorem scenario_sum_step:
  "aggregatedValue agg_Sum [\<lparr>input_id = ''1'', input_value = Fin 5, input_weight = Fin 1\<rparr>] (Fin (- 5)) = Fin 0
   \<and> output_value act_Step (Fin 0) slope gain = Fin 1
   \<and> (num_ge x (Fin 0) \<longrightarrow> act_fn act_Step x = Fin 1 \<and> output_value act_Step x slope gain = Fin 1)"
  by (simp add: aggregatedValue_def agg_Sum_def output_value_def act_Step_def num_ge_def)

text \<open>Step at the argument 3.5.\<close>

theorem scenario_sum_step_witness:
  "num_ge (Fin (7 / 2)) (Fin 0) \<and> act_fn act_Step (Fin (7 / 2)) = Fin 1
   \<and> output_value act_Step (Fin (7 / 2)) (Fin 1) (Fin 1) = Fin 1"
  using scenario_sum_step [where x = "Fin (7 / 2)" and slope = "Fin 1" and gain = "Fin 1"] by (simp add: num_ge_def)

text \<open>
  C9. Sign is 1 at every strictly positive argument and -1 at every argument less than or
  equal to 0; at 0 Sign is -1 while Step is 1.
\<close>

theorem Sign_strict_at_zero:
  "(num_gt x (Fin 0) \<longrightarrow> act_fn act_Sign x = Fin 1 \<and> output_value act_Sign x slope gain = Fin 1)
   \<and> (num_le x (Fin 0) \<longrightarrow> act_fn act_Sign x = Fin (- 1) \<and> output_value act_Sign x slope gain = Fin (- 1))
   \<and> act_fn act_Sign (Fin 0) = Fin (- 1)
   \<and> act_fn act_Step (Fin 0) = Fin 1"
  by (simp add: output_value_def act_Sign_def act_Step_def num_gt_def num_ge_def num_le_not_gt)

text \<open>Sign at the arguments 3 and -2.\<close>

theorem Sign_strict_at_zero_witness:
  "num_gt (Fin 3) (Fin 0) \<and> act_fn act_Sign (Fin 3) = Fin 1
   \<and> output_value act_Sign (Fin 3) (Fin 1) (Fin 1) = Fin 1
   \<and> num_le (Fin (- 2)) (Fin 0) \<and> act_fn act_Sign (Fin (- 2)) = Fin (- 1)
   \<and> output_value act_Sign (Fin (- 2)) (Fin 1) (Fin 1) = Fin (- 1)"
  using Sign_strict_at_zero [where x = "Fin 3" and slope = "Fin 1" and gain = "Fin 1"]
    Sign_strict_at_zero [where x = "Fin (- 2)" and slope = "Fin 1" and gain = "Fin 1"]
  by (simp add: num_gt_def)

section \<open>The input collection\<close>

lemma toString_2: "toString (Suc (Suc 0)) = ''2''"
  by (simp add: toString.simps digit_def)

lemma distinct_filter_eq_le_1:
  "distinct (map f xs) \<Longrightarrow> length (filter (\<lambda>x. f x = i) xs) \<le> 1"
  by (induction xs) (auto simp: filter_empty_conv image_iff)

text \<open>
  What the guard of \<^verbatim>\<open>removeInput\<close> and the disabled add button do give: removing from
  a collection of one input changes nothing; with pairwise distinct identifiers a removal
  leaves at least one input; and no sequence of clicks grows the collection beyond 10.
\<close>

lemma removeInput_last_is_noop: "length (inputs s) = 1 \<Longrightarrow> removeInput i s = s"
  by (simp add: removeInput_def)

lemma removeInput_distinct_keeps_one:
  assumes "distinct (map input_id (inputs s))" and "1 \<le> length (inputs s)"
  shows "1 \<le> length (inputs (removeInput i s))"
proof (cases "length (inputs s) > 1")
  case False
  with assms show ?thesis by (simp add: removeInput_def)
next
  case True
  from assms(1) have "length (filter (\<lambda>input. input_id input = i) (inputs s)) \<le> 1"
    by (rule distinct_filter_eq_le_1)
  moreover have "length (inputs s) = length (filter (\<lambda>input. input_id input = i) (inputs s))
      + length (filter (\<lambda>input. input_id input \<noteq> i) (inputs s))"
    by (simp add: sum_length_filter_compl)
  ultimately show ?thesis using True by (simp add: removeInput_def)
qed

lemma fire_length_le_10: "length (inputs s) \<le> 10 \<Longrightarrow> length (inputs (fire s e)) \<le> 10"
  by (cases e) (auto simp: addInput_def removeInput_def Let_def intro: le_trans[OF length_filter_le])

lemma run_length_le_10: "length (inputs s) \<le> 10 \<Longrightarrow> length (inputs (run s es)) \<le> 10"
  unfolding run_def by (induction es arbitrary: s) (simp_all add: fire_length_le_10 del: fire.simps)

lemma reachable_length_le_10: "length (inputs (run initialState es)) \<le> 10"
  by (rule run_length_le_10) (simp add: initialState_def)

text \<open>
  C3. The claim is that every reachable state has between 1 and 10 inputs. The code at the
  clicks remove (first row), add, remove (first row), each on a control that is enabled
  when it is clicked: the first removal leaves the input "2", the addition names the new
  input "2" as well (the length plus one), and the second removal filters both out. The
  collection is empty.
\<close>

theorem inputs_become_empty:
  "enabled initialState (ClickRemoveInput 0)
   \<and> enabled (run initialState [ClickRemoveInput 0]) ClickAddInput
   \<and> enabled (run initialState [ClickRemoveInput 0, ClickAddInput]) (ClickRemoveInput 0)
   \<and> run initialState [ClickRemoveInput 0, ClickAddInput, ClickRemoveInput 0] =
       removeInput ''2'' (addInput (removeInput ''1'' initialState))
   \<and> inputs (removeInput ''2'' (addInput (removeInput ''1'' initialState))) = []"
  by (simp add: run_def removeInput_def addInput_def initialState_def toString_2)

text \<open>
  C4. The claim is that the identifiers in every reachable state are pairwise distinct. The
  code at the clicks remove (first row), add: the identifiers are "2" and "2".
\<close>

theorem identifiers_repeat:
  "enabled initialState (ClickRemoveInput 0)
   \<and> enabled (run initialState [ClickRemoveInput 0]) ClickAddInput
   \<and> run initialState [ClickRemoveInput 0, ClickAddInput] = addInput (removeInput ''1'' initialState)
   \<and> map input_id (inputs (addInput (removeInput ''1'' initialState))) = [''2'', ''2'']
   \<and> \<not> distinct (map input_id (inputs (addInput (removeInput ''1'' initialState))))"
  by (simp add: run_def removeInput_def addInput_def initialState_def toString_2)

text \<open>
  C10. \<^verbatim>\<open>updateInput(id, field, value)\<close> keeps the length and the order of the collection
  and every identifier; it keeps every weight when the field is the value and every value
  when the field is the weight; it keeps every input whose identifier differs from
  \<^verbatim>\<open>id\<close>; when no input has that identifier the collection is unchanged; and it
  changes no other part of the state.
\<close>

theorem updateInput_frame:
  "length (inputs (updateInput parseFloat i field v s)) = length (inputs s)
   \<and> map input_id (inputs (updateInput parseFloat i field v s)) = map input_id (inputs s)
   \<and> (field = Field_value \<longrightarrow>
        map input_weight (inputs (updateInput parseFloat i field v s)) = map input_weight (inputs s))
   \<and> (field = Field_weight \<longrightarrow>
        map input_value (inputs (updateInput parseFloat i field v s)) = map input_value (inputs s))
   \<and> (k < length (inputs s) \<and> input_id (inputs s ! k) \<noteq> i \<longrightarrow>
        inputs (updateInput parseFloat i field v s) ! k = inputs s ! k)
   \<and> (i \<notin> set (map input_id (inputs s)) \<longrightarrow> inputs (updateInput parseFloat i field v s) = inputs s)
   \<and> updateInput parseFloat i field v s = s\<lparr>inputs := inputs (updateInput parseFloat i field v s)\<rparr>"
proof -
  have len: "length (inputs (updateInput parseFloat i field v s)) = length (inputs s)"
    by (simp add: updateInput_def)
  have ids: "map input_id (inputs (updateInput parseFloat i field v s)) = map input_id (inputs s)"
    by (simp add: updateInput_def Let_def split: Field.split)
  have weights: "field = Field_value \<longrightarrow>
        map input_weight (inputs (updateInput parseFloat i field v s)) = map input_weight (inputs s)"
    by (simp add: updateInput_def Let_def)
  have vals: "field = Field_weight \<longrightarrow>
        map input_value (inputs (updateInput parseFloat i field v s)) = map input_value (inputs s)"
    by (simp add: updateInput_def Let_def)
  have others: "k < length (inputs s) \<and> input_id (inputs s ! k) \<noteq> i \<longrightarrow>
        inputs (updateInput parseFloat i field v s) ! k = inputs s ! k"
    by (simp add: updateInput_def)
  have absent: "i \<notin> set (map input_id (inputs s)) \<longrightarrow>
        inputs (updateInput parseFloat i field v s) = inputs s"
    by (auto simp: updateInput_def intro!: map_idI)
  have rest: "updateInput parseFloat i field v s = s\<lparr>inputs := inputs (updateInput parseFloat i field v s)\<rparr>"
    by (simp add: updateInput_def)
  from len ids weights vals others absent rest show ?thesis
    by - (intro conjI, assumption+)
qed

text \<open>
  On the two initial inputs, with a \<^verbatim>\<open>parseFloat\<close> that reads "4": the value of input "1",
  the weight of input "2", and the absent identifier "7".
\<close>

theorem updateInput_frame_witness:
  "Field_value = Field_value
   \<and> map input_weight (inputs (updateInput (\<lambda>t. if t = ''4'' then Fin 4 else NaN) ''1'' Field_value ''4'' initialState)) = [Fin 1, Fin 1]
   \<and> (1 < length (inputs initialState) \<and> input_id (inputs initialState ! 1) \<noteq> ''1'')
   \<and> inputs (updateInput (\<lambda>t. if t = ''4'' then Fin 4 else NaN) ''1'' Field_value ''4'' initialState) ! 1
       = \<lparr>input_id = ''2'', input_value = Fin 0, input_weight = Fin 1\<rparr>
   \<and> Field_weight = Field_weight
   \<and> map input_value (inputs (updateInput (\<lambda>t. if t = ''4'' then Fin 4 else NaN) ''2'' Field_weight ''4'' initialState)) = [Fin 0, Fin 0]
   \<and> ''7'' \<notin> set (map input_id (inputs initialState))
   \<and> inputs (updateInput (\<lambda>t. if t = ''4'' then Fin 4 else NaN) ''7'' Field_value ''4'' initialState)
       = inputs initialState"
  using updateInput_frame [of "\<lambda>t. if t = ''4'' then Fin 4 else NaN" "''1''" Field_value "''4''" initialState 1]
    updateInput_frame [of "\<lambda>t. if t = ''4'' then Fin 4 else NaN" "''2''" Field_weight "''4''" initialState 0]
    updateInput_frame [of "\<lambda>t. if t = ''4'' then Fin 4 else NaN" "''7''" Field_value "''4''" initialState 0]
  by (simp add: initialState_def)

section \<open>Activation parameters\<close>

text \<open>
  The stored slope is at least 1 for every text, and the stored gain is greater than 1 for
  every text but the empty one.
\<close>

lemma handleLinearSlopeChange_ge_1:
  "num_ge (linearSlope (handleLinearSlopeChange parseFloat v s)) (Fin 1)"
  by (simp add: handleLinearSlopeChange_def Let_def num_ge_def)

lemma handleSigmoidGainChange_gt_1:
  "v \<noteq> '''' \<Longrightarrow> num_gt (sigmoidGain (handleSigmoidGainChange parseFloat v s)) (Fin 1)"
  by (simp add: handleSigmoidGainChange_def Let_def num_gt_def)

text \<open>
  C5. The claim is that the stored gain is greater than 1 for every text entered. The code
  at the empty text stores the gain 1, which is not greater than 1.
\<close>

theorem handleSigmoidGainChange_empty_text:
  "sigmoidGain (handleSigmoidGainChange parseFloat '''' s) = Fin 1
   \<and> \<not> num_gt (sigmoidGain (handleSigmoidGainChange parseFloat '''' s)) (Fin 1)"
  by (simp add: handleSigmoidGainChange_def Let_def num_gt_def)

section \<open>The viewport\<close>

text \<open>
  C8. From every viewport state, resetting the view twice gives the same state as resetting
  it once: pan (0, 0) and zoom 1, with the drag state as it was.
\<close>

theorem handleResetView_idempotent:
  "handleResetView (handleResetView v) = handleResetView v
   \<and> panX (handleResetView v) = Fin 0 \<and> panY (handleResetView v) = Fin 0
   \<and> zoom (handleResetView v) = Fin 1
   \<and> isDragging (handleResetView v) = isDragging v \<and> dragStart (handleResetView v) = dragStart v"
  by (simp add: handleResetView_def)

end
